theory Spec2Isabelle
  imports Main "HOL-Library.Stream" "HOL-Library.Sublist" "HOL-Library.Word"
begin

section \<open>Data model\<close>

text \<open>
  The types of \<^verbatim>\<open>types.ts\<close>. \<^verbatim>\<open>ChatRole\<close> is the union
  \<^verbatim>\<open>"system" | "user" | "assistant"\<close>; a \<^verbatim>\<open>ChatMessage\<close> has a role and a
  content. JavaScript strings are modelled as \<^typ>\<open>string\<close>; no property below depends
  on the width of a character.
\<close>

datatype ChatRole = System | User | Assistant

record ChatMessage =
  role :: ChatRole
  content :: string

text \<open>
  The request body after \<^verbatim>\<open>(await request.json()) as { messages: ChatMessage[]; model: string }\<close>.
  The input domain is the declared type; a field that is absent from the body
  (\<^verbatim>\<open>undefined\<close>, which is what triggers a destructuring default) is \<open>None\<close>.
\<close>

record ChatRequestBody =
  messages :: "ChatMessage list option"
  model :: "string option"

text \<open>A thrown value (a rejected promise), identified by its message.\<close>

datatype js_error = Error string

subsection \<open>Streams\<close>

text \<open>
  A reader is the sequence of outcomes of its successive \<^verbatim>\<open>read()\<close> calls:
  \<^verbatim>\<open>{done: false, value}\<close>, \<^verbatim>\<open>{done: true}\<close>, or a rejection. The sequence is
  infinite, so an upstream that never completes is a reader without \<open>Done\<close>.
\<close>

type_synonym Uint8Array = "8 word list"

datatype ReadResult = Chunk Uint8Array | Done | Rejected js_error

type_synonym Reader = "ReadResult stream"

datatype StreamState = Readable | Closed | Errored js_error

text \<open>
  The controller of a stream under construction: the chunks enqueued so far, in order,
  and whether the stream is still open.
\<close>

record Controller =
  enqueued :: "string list"
  state :: StreamState

text \<open>
  A \<^verbatim>\<open>ReadableStream\<close> is either one handed over by a collaborator
  (\<open>FromUpstream\<close>, opaque to this program), or one built by
  \<^verbatim>\<open>new ReadableStream({ start })\<close> (\<open>Constructed\<close>). A constructed stream is what its
  \<^verbatim>\<open>start\<close> makes of the controller: the chunks it has enqueued and the state it has
  left the stream in when it returns, or \<open>None\<close> when it never returns.
\<close>

datatype ReadableStream = FromUpstream Reader | Constructed "Controller option"

text \<open>
  \<^verbatim>\<open>new ReadableStream({ start })\<close>: the constructor calls \<^verbatim>\<open>start\<close> on the controller of
  the new stream, which is open and has nothing enqueued.
\<close>

definition new_ReadableStream :: "(Controller \<Rightarrow> Controller option) \<Rightarrow> ReadableStream" where
  "new_ReadableStream start_fn = Constructed (start_fn \<lparr>enqueued = [], state = Readable\<rparr>)"

subsection \<open>Requests and responses\<close>

datatype json_value =
  JString string
  | JArray "json_value list"
  | JObject "(string \<times> json_value) list"

text \<open>
  A body given to \<^verbatim>\<open>new Response\<close> or to \<^verbatim>\<open>fetch\<close>. \<open>JSON_stringify v\<close> stands for the
  text \<^verbatim>\<open>JSON.stringify(v)\<close>; the serialisation itself is the platform's.
\<close>

datatype BodyInit = Text string | JSON_stringify json_value | StreamBody ReadableStream

record Response =
  status :: nat
  headers :: "(string \<times> string) list"
  body :: BodyInit

text \<open>
  \<^verbatim>\<open>new Response(body, { status, headers })\<close>; the status is 200 when the init gives none.
\<close>

definition new_Response :: "BodyInit \<Rightarrow> nat option \<Rightarrow> (string \<times> string) list \<Rightarrow> Response" where
  "new_Response b st hs =
     \<lparr>status = (case st of None \<Rightarrow> 200 | Some s \<Rightarrow> s), headers = hs, body = b\<rparr>"

text \<open>
  An incoming request: its method, the \<^verbatim>\<open>pathname\<close> of \<^verbatim>\<open>new URL(request.url)\<close>, and the
  outcome of \<^verbatim>\<open>await request.json()\<close> (a rejection when the body is not JSON).
\<close>

record Request =
  "method" :: string
  pathname :: string
  json :: "js_error + ChatRequestBody"

subsection \<open>Collaborators\<close>

text \<open>
  The inference client: \<^verbatim>\<open>ai.run(model, { messages, stream })\<close>.
\<close>

record Ai =
  run :: "string \<Rightarrow> ChatMessage list \<Rightarrow> bool \<Rightarrow> js_error + ReadableStream"

datatype AiBinding = AiBinding nat

text \<open>
  What \<^verbatim>\<open>response.body?.getReader()\<close> gives for the response of the Gemini call:
  \<open>None\<close> when the response has no body.
\<close>

datatype FetchResponse = FetchResponse (getReader: "Reader option")

record Env =
  AI :: AiBinding
  ASSETS_fetch :: "Request \<Rightarrow> js_error + Response"
  GEMINI_API_KEY :: string

text \<open>
  What the program takes from the runtime and from the imported library: the constructor of
  \<^verbatim>\<open>Ai\<close>, the global \<^verbatim>\<open>fetch(url, { method, headers, body })\<close>, and the text decoder.
  A \<^verbatim>\<open>TextDecoder\<close> is an object with a state of type \<open>'d\<close>: \<open>new_TextDecoder\<close> is
  the state of a decoder just constructed, and \<open>TextDecoder_decode d value\<close> is the text
  that \<^verbatim>\<open>decode(value)\<close> returns on a decoder in state \<open>d\<close>, with the state it leaves.
  Each call of a collaborator may throw.
\<close>

record 'd Platform =
  new_Ai :: "AiBinding \<Rightarrow> js_error + Ai"
  global_fetch :: "string \<Rightarrow> string \<Rightarrow> (string \<times> string) list \<Rightarrow> BodyInit \<Rightarrow> js_error + FetchResponse"
  new_TextDecoder :: 'd
  TextDecoder_decode :: "'d \<Rightarrow> Uint8Array \<Rightarrow> string \<times> 'd"

text \<open>
  The calls a handler makes on the outside world, in the order it makes them. A function
  returns its result together with the calls it made.
\<close>

datatype effect =
  Request_json
  | Ai_run string "ChatMessage list" bool
  | Global_fetch string string "(string \<times> string) list" BodyInit
  | Assets_fetch Request
  | Console_error string js_error

section \<open>The worker\<close>

definition SYSTEM_PROMPT :: string where
  "SYSTEM_PROMPT = ''You are a helpful, friendly assistant. Provide concise and accurate responses.''"

definition WORKERS_AI_MODEL :: string where
  "WORKERS_AI_MODEL = ''@cf/meta/llama-3.3-70b-instruct-fp8-fast''"

definition GEMINI_API_ENDPOINT :: string where
  "GEMINI_API_ENDPOINT =
     ''https://generativelanguage.googleapis.com/v1beta/models/gemini-2.0-flash:generateContent''"

definition newline :: char where
  "newline = CHR 0x0A"

text \<open>\<^verbatim>\<open>Array.prototype.join\<close> on an array of strings.\<close>

fun join :: "string \<Rightarrow> string list \<Rightarrow> string" where
  "join sep [] = []"
| "join sep [x] = x"
| "join sep (x # y # ys) = x @ sep @ join sep (y # ys)"

subsection \<open>generateStreamingResponseUsingWorkersAi\<close>

definition generateStreamingResponseUsingWorkersAi ::
  "ChatMessage list \<Rightarrow> Ai \<Rightarrow> (js_error + ReadableStream) \<times> effect list" where
  "generateStreamingResponseUsingWorkersAi msgs ai =
     (run ai WORKERS_AI_MODEL msgs True, [Ai_run WORKERS_AI_MODEL msgs True])"

subsection \<open>generateStreamingResponseUsingGemini\<close>

text \<open>
  The body of \<^verbatim>\<open>start(controller)\<close>: read, stop at \<^verbatim>\<open>done\<close>, otherwise decode the value
  with \<^verbatim>\<open>new TextDecoder()\<close> and enqueue one frame, and read again; close after the loop.
  A rejected read leaves the loop by the exception, which errors the stream. The loop has
  no bound of its own, so the function is partial: \<open>None\<close> is a loop that never ends.
\<close>

partial_function (option) start :: "'d Platform \<Rightarrow> Reader \<Rightarrow> Controller \<Rightarrow> Controller option" where
  "start P reader controller =
     (case shd reader of
        Rejected e \<Rightarrow> Some (controller\<lparr>state := Errored e\<rparr>)
      | Done \<Rightarrow> Some (controller\<lparr>state := Closed\<rparr>)
      | Chunk v \<Rightarrow>
          (let chunk = fst (TextDecoder_decode P (new_TextDecoder P) v)
           in start P (stl reader)
                (controller\<lparr>enqueued := enqueued controller @
                   [''data: '' @ chunk @ [newline, newline]]\<rparr>)))"

definition generateStreamingResponseUsingGemini ::
  "'d Platform \<Rightarrow> ChatMessage list \<Rightarrow> Env \<Rightarrow> (js_error + ReadableStream) \<times> effect list" where
  "generateStreamingResponseUsingGemini P msgs env =
     (let prompt = join [newline] (map content msgs);
          geminiRequest =
            JObject [(''contents'',
              JArray [JObject [(''parts'', JArray [JObject [(''text'', JString prompt)]])]])];
          hdrs = [(''Content-Type'', ''application/json''),
                  (''X-goog-api-key'', GEMINI_API_KEY env)];
          payload = JSON_stringify geminiRequest;
          calls = [Global_fetch GEMINI_API_ENDPOINT ''POST'' hdrs payload]
      in case global_fetch P GEMINI_API_ENDPOINT ''POST'' hdrs payload of
           Inl e \<Rightarrow> (Inl e, calls)
         | Inr response \<Rightarrow>
             (case getReader response of
                None \<Rightarrow> (Inl (Error ''Failed to get reader from Gemini API response''), calls)
              | Some reader \<Rightarrow> (Inr (new_ReadableStream (start P reader)), calls)))"

subsection \<open>handleChatRequest\<close>

text \<open>The \<^verbatim>\<open>try\<close> block: \<open>Inl\<close> is an exception that reaches the \<^verbatim>\<open>catch\<close>.\<close>

definition handleChatRequest_try ::
  "'d Platform \<Rightarrow> Request \<Rightarrow> Env \<Rightarrow> (js_error + Response) \<times> effect list" where
  "handleChatRequest_try P request env =
     (case new_Ai P (AI env) of
        Inl e \<Rightarrow> (Inl e, [])
      | Inr ai \<Rightarrow>
          (case json request of
             Inl e \<Rightarrow> (Inl e, [Request_json])
           | Inr parsed \<Rightarrow>
               (let msgs0 = (case messages parsed of None \<Rightarrow> [] | Some ms \<Rightarrow> ms);
                    model0 = (case model parsed of None \<Rightarrow> ''workers-ai'' | Some m \<Rightarrow> m);
                    msgs = (if \<not> list_ex (\<lambda>msg. role msg = System) msgs0
                            then \<lparr>role = System, content = SYSTEM_PROMPT\<rparr> # msgs0
                            else msgs0);
                    (responseStream, calls) =
                      (if model0 = ''gemini''
                       then generateStreamingResponseUsingGemini P msgs env
                       else generateStreamingResponseUsingWorkersAi msgs ai)
                in case responseStream of
                     Inl e \<Rightarrow> (Inl e, Request_json # calls)
                   | Inr s \<Rightarrow>
                       (Inr (new_Response (StreamBody s) None
                               [(''content-type'', ''text/event-stream''),
                                (''cache-control'', ''no-cache''),
                                (''connection'', ''keep-alive'')]),
                        Request_json # calls))))"

definition handleChatRequest :: "'d Platform \<Rightarrow> Request \<Rightarrow> Env \<Rightarrow> Response \<times> effect list" where
  "handleChatRequest P request env =
     (case handleChatRequest_try P request env of
        (Inr response, calls) \<Rightarrow> (response, calls)
      | (Inl error, calls) \<Rightarrow>
          (new_Response
             (JSON_stringify (JObject [(''error'', JString ''Failed to process request'')]))
             (Some 500) [(''content-type'', ''application/json'')],
           calls @ [Console_error ''Error processing chat request:'' error]))"

subsection \<open>fetch\<close>

definition fetch :: "'d Platform \<Rightarrow> Request \<Rightarrow> Env \<Rightarrow> (js_error + Response) \<times> effect list" where
  "fetch P request env =
     (if pathname request = ''/'' \<or> \<not> prefix ''/api/'' (pathname request)
      then (ASSETS_fetch env request, [Assets_fetch request])
      else if pathname request = ''/api/chat''
      then (if method request = ''POST''
            then (case handleChatRequest P request env of
                    (response, calls) \<Rightarrow> (Inr response, calls))
            else (Inr (new_Response (Text ''Method not allowed'') (Some 405) []), []))
      else (Inr (new_Response (Text ''Not found'') (Some 404) []), []))"

section \<open>Observations and example inputs\<close>

text \<open>
  Each generator starts with its upstream call, so a generator ran exactly when its call
  is among the calls made: \<^verbatim>\<open>ai.run\<close> for the primary one, the global \<^verbatim>\<open>fetch\<close> for
  the secondary one.
\<close>

definition invokes_primary :: "effect list \<Rightarrow> bool" where
  "invokes_primary calls = list_ex (\<lambda>c. case c of Ai_run _ _ _ \<Rightarrow> True | _ \<Rightarrow> False) calls"

definition invokes_secondary :: "effect list \<Rightarrow> bool" where
  "invokes_secondary calls =
     list_ex (\<lambda>c. case c of Global_fetch _ _ _ _ \<Rightarrow> True | _ \<Rightarrow> False) calls"

text \<open>
  A small world to run the worker in. Its decoder knows the bytes of \<open>h\<close> and \<open>i\<close>, and
  its state counts the calls made on it: a decoder that has been used before marks its
  output with \<open>~\<close>.
\<close>

definition example_reader :: Reader where
  "example_reader = Chunk [0x68, 0x69] ## sconst Done"

definition example_ai :: Ai where
  "example_ai = \<lparr>run = (\<lambda>m msgs s. Inr (FromUpstream example_reader))\<rparr>"

definition example_platform :: "nat Platform" where
  "example_platform =
     \<lparr>new_Ai = (\<lambda>b. Inr example_ai),
      global_fetch = (\<lambda>u m h b. Inr (FetchResponse (Some example_reader))),
      new_TextDecoder = 0,
      TextDecoder_decode = (\<lambda>d v.
        ((if d = 0 then [] else ''~'') @
           map (\<lambda>b. if b = 0x68 then CHR ''h'' else if b = 0x69 then CHR ''i'' else CHR ''?'') v,
         Suc d))\<rparr>"

definition example_env :: Env where
  "example_env =
     \<lparr>AI = AiBinding 0,
      ASSETS_fetch = (\<lambda>r. Inr (new_Response (Text ''index'') None [])),
      GEMINI_API_KEY = ''key''\<rparr>"

definition chat_request :: "js_error + ChatRequestBody \<Rightarrow> Request" where
  "chat_request b = \<lparr>method = ''POST'', pathname = ''/api/chat'', json = b\<rparr>"

section \<open>Auxiliary facts\<close>

lemma join_Cons: "join sep (x # xs) = x @ concat (map (\<lambda>y. sep @ y) xs)"
  by (induction sep xs arbitrary: x rule: join.induct) simp_all

lemma start_chunks:
  "start P (map Chunk cs @- r) c =
     start P r (c\<lparr>enqueued := enqueued c @
       map (\<lambda>v. ''data: '' @ fst (TextDecoder_decode P (new_TextDecoder P) v) @ [newline, newline]) cs\<rparr>)"
proof (induction cs arbitrary: c)
  case Nil
  show ?case by simp
next
  case (Cons v vs)
  have "start P (map Chunk (v # vs) @- r) c =
          start P (map Chunk vs @- r)
            (c\<lparr>enqueued := enqueued c @
               [''data: '' @ fst (TextDecoder_decode P (new_TextDecoder P) v) @ [newline, newline]]\<rparr>)"
    by (subst start.simps) (simp add: Let_def)
  also have "\<dots> =
          start P r (c\<lparr>enqueued := enqueued c @
            map (\<lambda>v. ''data: '' @ fst (TextDecoder_decode P (new_TextDecoder P) v) @ [newline, newline])
              (v # vs)\<rparr>)"
    by (simp add: Cons.IH)
  finally show ?case .
qed

lemma start_Done: "shd r = Done \<Longrightarrow> start P r c = Some (c\<lparr>state := Closed\<rparr>)"
  by (subst start.simps) simp

lemma start_Rejected: "shd r = Rejected e \<Longrightarrow> start P r c = Some (c\<lparr>state := Errored e\<rparr>)"
  by (subst start.simps) simp

text \<open>Whatever the loop has enqueued stays enqueued, in place.\<close>

lemma start_prefix:
  assumes "start P r c = Some c'"
  shows "prefix (enqueued c) (enqueued c')"
proof -
  have "prefix (enqueued (snd ((P, r), c))) (enqueued c')"
  proof (rule start.raw_induct [where Pa = "\<lambda>x y. prefix (enqueued (snd x)) (enqueued y)", OF _ assms])
    fix f :: "'a Platform \<Rightarrow> Reader \<Rightarrow> Controller \<Rightarrow> Controller option"
      and Q reader controller y
    assume IH: "\<And>reader controller b y. f reader controller b = Some y \<Longrightarrow>
                  prefix (enqueued (snd ((reader, controller), b))) (enqueued y)"
      and step: "(case shd reader of
          Chunk v \<Rightarrow>
            (let chunk = fst (TextDecoder_decode Q (new_TextDecoder Q) v)
             in f Q (stl reader)
                  (controller\<lparr>enqueued := enqueued controller @
                     [''data: '' @ chunk @ [newline, newline]]\<rparr>))
        | Done \<Rightarrow> Some (controller\<lparr>state := Closed\<rparr>)
        | Rejected e \<Rightarrow> Some (controller\<lparr>state := Errored e\<rparr>)) = Some y"
    show "prefix (enqueued (snd ((Q, reader), controller))) (enqueued y)"
    proof (cases "shd reader")
      case (Chunk v)
      with step have "f Q (stl reader)
             (controller\<lparr>enqueued := enqueued controller @
                [''data: '' @ fst (TextDecoder_decode Q (new_TextDecoder Q) v) @ [newline, newline]]\<rparr>)
           = Some y"
        by (simp add: Let_def)
      from IH [OF this]
      have "prefix (enqueued controller @
                [''data: '' @ fst (TextDecoder_decode Q (new_TextDecoder Q) v) @ [newline, newline]])
              (enqueued y)"
        by simp
      then show ?thesis
        by (simp add: append_prefixD)
    next
      case Done
      with step show ?thesis by auto
    next
      case (Rejected e)
      with step show ?thesis by auto
    qed
  qed
  then show ?thesis by simp
qed

text \<open>The stream built around a reader that delivers \<open>cs\<close> and then ends, or then fails.\<close>

lemma new_ReadableStream_chunks:
  "new_ReadableStream (start P (map Chunk cs @- r)) =
     Constructed (start P r
       \<lparr>enqueued =
          map (\<lambda>v. ''data: '' @ fst (TextDecoder_decode P (new_TextDecoder P) v) @ [newline, newline]) cs,
        state = Readable\<rparr>)"
  by (simp add: new_ReadableStream_def start_chunks)

lemma new_ReadableStream_finite:
  "new_ReadableStream (start P (map Chunk cs @- sconst Done)) =
     Constructed (Some
       \<lparr>enqueued =
          map (\<lambda>v. ''data: '' @ fst (TextDecoder_decode P (new_TextDecoder P) v) @ [newline, newline]) cs,
        state = Closed\<rparr>)"
  by (simp add: new_ReadableStream_chunks start_Done)

lemma new_ReadableStream_rejected:
  "new_ReadableStream (start P (map Chunk cs @- sconst (Rejected e))) =
     Constructed (Some
       \<lparr>enqueued =
          map (\<lambda>v. ''data: '' @ fst (TextDecoder_decode P (new_TextDecoder P) v) @ [newline, newline]) cs,
        state = Errored e\<rparr>)"
  by (simp add: new_ReadableStream_chunks start_Rejected)

text \<open>The secondary generator when the Gemini call gives a response with a reader.\<close>

lemma generateStreamingResponseUsingGemini_stream:
  assumes "global_fetch P GEMINI_API_ENDPOINT ''POST''
             [(''Content-Type'', ''application/json''), (''X-goog-api-key'', GEMINI_API_KEY env)]
             (JSON_stringify (JObject [(''contents'',
                JArray [JObject [(''parts'',
                  JArray [JObject [(''text'', JString (join [newline] (map content msgs)))]])]])]))
           = Inr response"
    and "getReader response = Some reader"
  shows "fst (generateStreamingResponseUsingGemini P msgs env) =
           Inr (new_ReadableStream (start P reader))"
  using assms by (simp add: generateStreamingResponseUsingGemini_def)

text \<open>The \<^verbatim>\<open>try\<close> block once the client is constructed and the body is parsed.\<close>

lemma handleChatRequest_try_parsed:
  assumes "new_Ai P (AI env) = Inr ai" and "json request = Inr parsed"
  shows "handleChatRequest_try P request env =
     (let msgs0 = (case messages parsed of None \<Rightarrow> [] | Some ms \<Rightarrow> ms);
          msgs = (if list_ex (\<lambda>msg. role msg = System) msgs0 then msgs0
                  else \<lparr>role = System, content = SYSTEM_PROMPT\<rparr> # msgs0)
      in case (if model parsed = Some ''gemini''
               then generateStreamingResponseUsingGemini P msgs env
               else generateStreamingResponseUsingWorkersAi msgs ai) of
           (r, calls) \<Rightarrow>
             (map_sum id (\<lambda>s. new_Response (StreamBody s) None
                               [(''content-type'', ''text/event-stream''),
                                (''cache-control'', ''no-cache''),
                                (''connection'', ''keep-alive'')]) r,
              Request_json # calls))"
proof (cases "model parsed")
  case None
  with assms show ?thesis
    by (simp add: handleChatRequest_try_def Let_def split: sum.split prod.split)
next
  case (Some m)
  with assms show ?thesis
    by (simp add: handleChatRequest_try_def Let_def split: sum.split prod.split)
qed

lemma handleChatRequest_calls:
  "snd (handleChatRequest P request env) =
     snd (handleChatRequest_try P request env) @
       (case fst (handleChatRequest_try P request env) of
          Inl e \<Rightarrow> [Console_error ''Error processing chat request:'' e]
        | Inr _ \<Rightarrow> [])"
  by (simp add: handleChatRequest_def split: prod.split sum.split)

lemma handleChatRequest_response:
  "fst (handleChatRequest P request env) =
     (case fst (handleChatRequest_try P request env) of
        Inl e \<Rightarrow> \<lparr>status = 500, headers = [(''content-type'', ''application/json'')],
                  body = JSON_stringify (JObject [(''error'', JString ''Failed to process request'')])\<rparr>
      | Inr response \<Rightarrow> response)"
  by (simp add: handleChatRequest_def new_Response_def split: prod.split sum.split)

lemma generateStreamingResponseUsingGemini_calls:
  "snd (generateStreamingResponseUsingGemini P msgs env) =
     [Global_fetch GEMINI_API_ENDPOINT ''POST''
        [(''Content-Type'', ''application/json''), (''X-goog-api-key'', GEMINI_API_KEY env)]
        (JSON_stringify (JObject [(''contents'',
           JArray [JObject [(''parts'',
             JArray [JObject [(''text'', JString (join [newline] (map content msgs)))]])]])]))]"
  unfolding generateStreamingResponseUsingGemini_def Let_def
  by (simp split: sum.split option.split)

lemma generateStreamingResponseUsingGemini_content:
  "map content msgs = map content msgs' \<Longrightarrow>
     generateStreamingResponseUsingGemini P msgs env = generateStreamingResponseUsingGemini P msgs' env"
  by (simp add: generateStreamingResponseUsingGemini_def)

lemma invokes_append:
  "invokes_primary (xs @ ys) = (invokes_primary xs \<or> invokes_primary ys)"
  "invokes_secondary (xs @ ys) = (invokes_secondary xs \<or> invokes_secondary ys)"
  by (auto simp: invokes_primary_def invokes_secondary_def list_ex_iff)

lemma invokes_Cons:
  "invokes_primary (c # cs) = ((case c of Ai_run _ _ _ \<Rightarrow> True | _ \<Rightarrow> False) \<or> invokes_primary cs)"
  "invokes_secondary (c # cs) =
     ((case c of Global_fetch _ _ _ _ \<Rightarrow> True | _ \<Rightarrow> False) \<or> invokes_secondary cs)"
  "invokes_primary [] = False"
  "invokes_secondary [] = False"
  by (simp_all add: invokes_primary_def invokes_secondary_def)

lemma example_facts:
  "new_Ai example_platform (AI example_env) = Inr example_ai"
  "json (chat_request b) = b"
  "run example_ai m msgs s = Inr (FromUpstream example_reader)"
  "global_fetch example_platform u m h p = Inr (FetchResponse (Some example_reader))"
  "GEMINI_API_KEY example_env = ''key''"
  by (simp_all add: example_platform_def example_env_def example_ai_def chat_request_def)

section \<open>The chat adapter\<close>

text \<open>
  C1. Once the client is constructed and the body is parsed, the handler hands the
  selected generator a list \<open>msgs\<close>, and gives back what that generator gives with the
  streaming headers put around it. When the request's messages (the empty list when the
  field is absent) hold no message of role \<open>system\<close>, \<open>msgs\<close> is those messages with
  the default system message put in front, and it holds exactly one system message;
  when they hold a system message already, \<open>msgs\<close> is the request's list unchanged.
\<close>

theorem system_prompt_injection:
  assumes "new_Ai P (AI env) = Inr ai" and "json request = Inr parsed"
    and "msgs0 = (case messages parsed of None \<Rightarrow> [] | Some ms \<Rightarrow> ms)"
  shows "\<exists>msgs.
     handleChatRequest_try P request env =
       (case (if model parsed = Some ''gemini''
              then generateStreamingResponseUsingGemini P msgs env
              else generateStreamingResponseUsingWorkersAi msgs ai) of
          (r, calls) \<Rightarrow>
            (map_sum id (\<lambda>s. new_Response (StreamBody s) None
                              [(''content-type'', ''text/event-stream''),
                               (''cache-control'', ''no-cache''),
                               (''connection'', ''keep-alive'')]) r,
             Request_json # calls))
     \<and> ((\<forall>m \<in> set msgs0. role m \<noteq> System) \<longrightarrow>
            msgs = \<lparr>role = System, content = SYSTEM_PROMPT\<rparr> # msgs0
          \<and> length (filter (\<lambda>m. role m = System) msgs) = 1)
     \<and> ((\<exists>m \<in> set msgs0. role m = System) \<longrightarrow> msgs = msgs0)"
proof -
  let ?msgs = "if list_ex (\<lambda>msg. role msg = System) msgs0 then msgs0
               else \<lparr>role = System, content = SYSTEM_PROMPT\<rparr> # msgs0"
  have none: "filter (\<lambda>m. role m = System) msgs0 = []"
    if "\<forall>m \<in> set msgs0. role m \<noteq> System"
    using that by (simp add: filter_empty_conv)
  have "handleChatRequest_try P request env =
       (case (if model parsed = Some ''gemini''
              then generateStreamingResponseUsingGemini P ?msgs env
              else generateStreamingResponseUsingWorkersAi ?msgs ai) of
          (r, calls) \<Rightarrow>
            (map_sum id (\<lambda>s. new_Response (StreamBody s) None
                              [(''content-type'', ''text/event-stream''),
                               (''cache-control'', ''no-cache''),
                               (''connection'', ''keep-alive'')]) r,
             Request_json # calls))"
    using handleChatRequest_try_parsed [OF assms(1,2)] assms(3) by (simp add: Let_def)
  moreover have "(\<forall>m \<in> set msgs0. role m \<noteq> System) \<longrightarrow>
            ?msgs = \<lparr>role = System, content = SYSTEM_PROMPT\<rparr> # msgs0
          \<and> length (filter (\<lambda>m. role m = System) ?msgs) = 1"
    using none by (auto simp: list_ex_iff)
  moreover have "(\<exists>m \<in> set msgs0. role m = System) \<longrightarrow> ?msgs = msgs0"
    by (simp add: list_ex_iff)
  ultimately show ?thesis by blast
qed

text \<open>
  The request \<^verbatim>\<open>{messages: [{role: "user", content: "Hi"}], model: "workers-ai"}\<close>: the
  primary generator is run on the default system message followed by the user's; and a
  request that brings its own system message has it forwarded alone.
\<close>

theorem system_prompt_injection_witness:
  "new_Ai example_platform (AI example_env) = Inr example_ai
   \<and> handleChatRequest_try example_platform
       (chat_request (Inr \<lparr>messages = Some [\<lparr>role = User, content = ''Hi''\<rparr>],
                           model = Some ''workers-ai''\<rparr>)) example_env =
       (Inr (new_Response (StreamBody (FromUpstream example_reader)) None
               [(''content-type'', ''text/event-stream''),
                (''cache-control'', ''no-cache''),
                (''connection'', ''keep-alive'')]),
        [Request_json,
         Ai_run WORKERS_AI_MODEL
           [\<lparr>role = System, content = SYSTEM_PROMPT\<rparr>, \<lparr>role = User, content = ''Hi''\<rparr>] True])
   \<and> snd (handleChatRequest_try example_platform
       (chat_request (Inr \<lparr>messages = Some [\<lparr>role = System, content = ''Be brief''\<rparr>],
                           model = None\<rparr>)) example_env) =
        [Request_json,
         Ai_run WORKERS_AI_MODEL [\<lparr>role = System, content = ''Be brief''\<rparr>] True]"
proof -
  let ?b1 = "\<lparr>messages = Some [\<lparr>role = User, content = ''Hi''\<rparr>], model = Some ''workers-ai''\<rparr>"
  let ?b2 = "\<lparr>messages = Some [\<lparr>role = System, content = ''Be brief''\<rparr>], model = None\<rparr>"
  have ai: "new_Ai example_platform (AI example_env) = Inr example_ai"
    by (simp add: example_facts)
  have b1: "json (chat_request (Inr ?b1)) = Inr ?b1" and b2: "json (chat_request (Inr ?b2)) = Inr ?b2"
    by (simp_all add: example_facts)
  from system_prompt_injection [OF ai b1 refl] system_prompt_injection [OF ai b2 refl] ai
  show ?thesis
    by (auto simp: generateStreamingResponseUsingWorkersAi_def example_facts)
qed



section \<open>The secondary generator's stream\<close>

text \<open>
  C3. When the Gemini call gives a response whose reader delivers the chunks \<open>cs\<close> and
  then signals completion, the secondary generator returns a stream whose \<^verbatim>\<open>start\<close>
  ends; the stream has been given one frame per upstream chunk, in upstream order, each
  \<open>data: \<close> followed by the decoded chunk and two newlines, so the concatenation of what
  it emits is the concatenation of those frames; and it has been closed.
\<close>

theorem sse_framing:
  assumes "global_fetch P GEMINI_API_ENDPOINT ''POST''
             [(''Content-Type'', ''application/json''), (''X-goog-api-key'', GEMINI_API_KEY env)]
             (JSON_stringify (JObject [(''contents'',
                JArray [JObject [(''parts'',
                  JArray [JObject [(''text'', JString (join [newline] (map content msgs)))]])]])]))
           = Inr response"
    and "getReader response = Some (map Chunk cs @- sconst Done)"
  shows "\<exists>c. fst (generateStreamingResponseUsingGemini P msgs env) = Inr (Constructed (Some c))
     \<and> enqueued c =
         map (\<lambda>v. ''data: '' @ fst (TextDecoder_decode P (new_TextDecoder P) v) @ [newline, newline]) cs
     \<and> concat (enqueued c) =
         concat (map (\<lambda>v. ''data: '' @ fst (TextDecoder_decode P (new_TextDecoder P) v)
                        @ [newline, newline]) cs)
     \<and> state c = Closed"
proof -
  let ?frames =
    "map (\<lambda>v. ''data: '' @ fst (TextDecoder_decode P (new_TextDecoder P) v) @ [newline, newline]) cs"
  have "fst (generateStreamingResponseUsingGemini P msgs env) =
          Inr (new_ReadableStream (start P (map Chunk cs @- sconst Done)))"
    by (rule generateStreamingResponseUsingGemini_stream [OF assms])
  also have "\<dots> = Inr (Constructed (Some \<lparr>enqueued = ?frames, state = Closed\<rparr>))"
    by (simp add: new_ReadableStream_finite)
  finally show ?thesis
    by simp
qed

text \<open>
  The Gemini response arrives in two chunks, \<open>h\<close> and \<open>i!\<close>; the example decoder does
  not know the byte of \<open>!\<close>.
\<close>

theorem sse_framing_witness:
  "fst (generateStreamingResponseUsingGemini
     (example_platform\<lparr>global_fetch := (\<lambda>u m h b.
        Inr (FetchResponse (Some (Chunk [0x68] ## Chunk [0x69, 0x21] ## sconst Done))))\<rparr>)
     [\<lparr>role = User, content = ''Hi''\<rparr>] example_env) =
   Inr (Constructed (Some
     \<lparr>enqueued = [''data: h'' @ [newline, newline], ''data: i?'' @ [newline, newline]],
      state = Closed\<rparr>))"
proof -
  let ?P = "example_platform\<lparr>global_fetch := (\<lambda>u m h b.
        Inr (FetchResponse (Some (Chunk [0x68] ## Chunk [0x69, 0x21] ## sconst Done))))\<rparr>"
  let ?response = "FetchResponse (Some (Chunk [0x68] ## Chunk [0x69, 0x21] ## sconst Done))"
  have call: "global_fetch ?P u m h b = Inr ?response" for u m h b
    by simp
  have reader: "getReader ?response = Some (map Chunk [[0x68], [0x69, 0x21]] @- sconst Done)"
    by simp
  from sse_framing [OF call reader, of "[\<lparr>role = User, content = ''Hi''\<rparr>]" example_env]
  obtain c where "fst (generateStreamingResponseUsingGemini ?P
        [\<lparr>role = User, content = ''Hi''\<rparr>] example_env) = Inr (Constructed (Some c))"
    and "enqueued c = [''data: h'' @ [newline, newline], ''data: i?'' @ [newline, newline]]"
    and "state c = Closed"
    by (auto simp: example_platform_def)
  then show ?thesis
    by (cases c) simp
qed

section \<open>Routing\<close>

text \<open>
  C4. What \<open>fetch\<close> does is decided by the request's path and method alone, and every
  request falls under one of four cases. A path that is \<open>/\<close> or does not begin with
  \<open>/api/\<close> gives exactly what the static-asset collaborator gives for the request, and
  that call is the only one made. The path \<open>/api/chat\<close> with method \<open>POST\<close> gives what the
  chat handler gives. The path \<open>/api/chat\<close> with any other method gives status 405 and no
  call is made at all: the body is not read and nothing upstream is called. Any other
  path that begins with \<open>/api/\<close> gives status 404, again with no call made.
\<close>

theorem fetch_routing:
  "(pathname request = ''/'' \<or> \<not> prefix ''/api/'' (pathname request) \<longrightarrow>
      fetch P request env = (ASSETS_fetch env request, [Assets_fetch request]))
   \<and> (pathname request = ''/api/chat'' \<and> method request = ''POST'' \<longrightarrow>
      fetch P request env =
        (Inr (fst (handleChatRequest P request env)), snd (handleChatRequest P request env)))
   \<and> (pathname request = ''/api/chat'' \<and> method request \<noteq> ''POST'' \<longrightarrow>
      fetch P request env =
        (Inr \<lparr>status = 405, headers = [], body = Text ''Method not allowed''\<rparr>, []))
   \<and> (prefix ''/api/'' (pathname request) \<and> pathname request \<noteq> ''/api/chat'' \<longrightarrow>
      fetch P request env = (Inr \<lparr>status = 404, headers = [], body = Text ''Not found''\<rparr>, []))"
proof -
  have a: "pathname request = ''/'' \<or> \<not> prefix ''/api/'' (pathname request) \<Longrightarrow>
      fetch P request env = (ASSETS_fetch env request, [Assets_fetch request])"
    unfolding fetch_def by (rule if_P)
  have chat: "prefix ''/api/'' ''/api/chat''" "''/api/chat'' \<noteq> ''/''"
    by simp_all
  have b: "pathname request = ''/api/chat'' \<Longrightarrow> method request = ''POST'' \<Longrightarrow>
      fetch P request env =
        (Inr (fst (handleChatRequest P request env)), snd (handleChatRequest P request env))"
    using chat by (simp add: fetch_def split_beta)
  have c: "pathname request = ''/api/chat'' \<Longrightarrow> method request \<noteq> ''POST'' \<Longrightarrow>
      fetch P request env =
        (Inr \<lparr>status = 405, headers = [], body = Text ''Method not allowed''\<rparr>, [])"
    using chat by (simp add: fetch_def new_Response_def)
  have d: "prefix ''/api/'' (pathname request) \<Longrightarrow> pathname request \<noteq> ''/api/chat'' \<Longrightarrow>
      fetch P request env = (Inr \<lparr>status = 404, headers = [], body = Text ''Not found''\<rparr>, [])"
    by (auto simp: fetch_def new_Response_def)
  from a b c d show ?thesis by blast
qed

text \<open>
  \<open>GET /index.html\<close>, \<open>GET /api\<close> (no slash after it), \<open>GET /api/chat\<close>,
  \<open>DELETE /api/unknown\<close>, and \<open>POST /api/chat\<close> with a body that is not JSON.
\<close>

theorem fetch_routing_witness:
  "fetch example_platform
     \<lparr>method = ''GET'', pathname = ''/index.html'', json = Inl (Error ''no body'')\<rparr> example_env =
     (Inr \<lparr>status = 200, headers = [], body = Text ''index''\<rparr>,
      [Assets_fetch \<lparr>method = ''GET'', pathname = ''/index.html'', json = Inl (Error ''no body'')\<rparr>])
   \<and> fst (fetch example_platform
     \<lparr>method = ''GET'', pathname = ''/api'', json = Inl (Error ''no body'')\<rparr> example_env) =
     Inr \<lparr>status = 200, headers = [], body = Text ''index''\<rparr>
   \<and> fetch example_platform
     \<lparr>method = ''GET'', pathname = ''/api/chat'', json = Inl (Error ''no body'')\<rparr> example_env =
     (Inr \<lparr>status = 405, headers = [], body = Text ''Method not allowed''\<rparr>, [])
   \<and> fetch example_platform
     \<lparr>method = ''DELETE'', pathname = ''/api/unknown'', json = Inl (Error ''no body'')\<rparr> example_env =
     (Inr \<lparr>status = 404, headers = [], body = Text ''Not found''\<rparr>, [])
   \<and> fetch example_platform (chat_request (Inl (Error ''not JSON''))) example_env =
     (Inr (fst (handleChatRequest example_platform (chat_request (Inl (Error ''not JSON''))) example_env)),
      snd (handleChatRequest example_platform (chat_request (Inl (Error ''not JSON''))) example_env))"
  using
    fetch_routing [of "\<lparr>method = ''GET'', pathname = ''/index.html'', json = Inl (Error ''no body'')\<rparr>"
      example_platform example_env]
    fetch_routing [of "\<lparr>method = ''GET'', pathname = ''/api'', json = Inl (Error ''no body'')\<rparr>"
      example_platform example_env]
    fetch_routing [of "\<lparr>method = ''GET'', pathname = ''/api/chat'', json = Inl (Error ''no body'')\<rparr>"
      example_platform example_env]
    fetch_routing [of "\<lparr>method = ''DELETE'', pathname = ''/api/unknown'', json = Inl (Error ''no body'')\<rparr>"
      example_platform example_env]
    fetch_routing [of "chat_request (Inl (Error ''not JSON''))" example_platform example_env]
  by (simp add: example_env_def new_Response_def chat_request_def)

section \<open>Failures before the stream\<close>

text \<open>
  C5. An exception that leaves the \<^verbatim>\<open>try\<close> block of the chat handler is caught there:
  the handler itself returns a response, of status 500 with the JSON body
  \<^verbatim>\<open>{"error":"Failed to process request"}\<close>, the same whatever was thrown; the exception
  goes to the console only. Every failure before the stream is built is such an
  exception: the construction of the client, the parsing of the body (a body that is
  not JSON included), and the selected generator's failure to produce a stream.
\<close>

theorem exceptions_become_500:
  "(fst (handleChatRequest_try P request env) = Inl e \<longrightarrow>
      handleChatRequest P request env =
        (\<lparr>status = 500, headers = [(''content-type'', ''application/json'')],
          body = JSON_stringify (JObject [(''error'', JString ''Failed to process request'')])\<rparr>,
         snd (handleChatRequest_try P request env) @
           [Console_error ''Error processing chat request:'' e]))
   \<and> (new_Ai P (AI env) = Inl e \<longrightarrow> fst (handleChatRequest_try P request env) = Inl e)
   \<and> (new_Ai P (AI env) = Inr ai \<and> json request = Inl e \<longrightarrow>
        fst (handleChatRequest_try P request env) = Inl e)
   \<and> (new_Ai P (AI env) = Inr ai \<and> json request = Inr parsed
        \<and> msgs0 = (case messages parsed of None \<Rightarrow> [] | Some ms \<Rightarrow> ms)
        \<and> msgs = (if list_ex (\<lambda>msg. role msg = System) msgs0 then msgs0
                   else \<lparr>role = System, content = SYSTEM_PROMPT\<rparr> # msgs0)
        \<and> (if model parsed = Some ''gemini''
            then fst (generateStreamingResponseUsingGemini P msgs env) = Inl e
            else run ai WORKERS_AI_MODEL msgs True = Inl e) \<longrightarrow>
        fst (handleChatRequest_try P request env) = Inl e)"
proof -
  have a: "fst (handleChatRequest_try P request env) = Inl e \<Longrightarrow>
      handleChatRequest P request env =
        (\<lparr>status = 500, headers = [(''content-type'', ''application/json'')],
          body = JSON_stringify (JObject [(''error'', JString ''Failed to process request'')])\<rparr>,
         snd (handleChatRequest_try P request env) @
           [Console_error ''Error processing chat request:'' e])"
    by (cases "handleChatRequest_try P request env")
       (simp add: handleChatRequest_def new_Response_def)
  have b: "new_Ai P (AI env) = Inl e \<Longrightarrow> fst (handleChatRequest_try P request env) = Inl e"
    by (simp add: handleChatRequest_try_def)
  have c: "new_Ai P (AI env) = Inr ai \<Longrightarrow> json request = Inl e \<Longrightarrow>
        fst (handleChatRequest_try P request env) = Inl e"
    by (simp add: handleChatRequest_try_def)
  have d: "fst (handleChatRequest_try P request env) = Inl e"
    if "new_Ai P (AI env) = Inr ai" "json request = Inr parsed"
      "msgs0 = (case messages parsed of None \<Rightarrow> [] | Some ms \<Rightarrow> ms)"
      "msgs = (if list_ex (\<lambda>msg. role msg = System) msgs0 then msgs0
                   else \<lparr>role = System, content = SYSTEM_PROMPT\<rparr> # msgs0)"
      "if model parsed = Some ''gemini''
            then fst (generateStreamingResponseUsingGemini P msgs env) = Inl e
            else run ai WORKERS_AI_MODEL msgs True = Inl e"
    using that(3-5)
    by (simp add: handleChatRequest_try_parsed [OF that(1,2)] Let_def split_beta
        generateStreamingResponseUsingWorkersAi_def split: if_splits)
  from a b c d show ?thesis by blast
qed

text \<open>
  A body that is not JSON; an inference client whose \<^verbatim>\<open>run\<close> rejects; a Gemini call
  that rejects. The three responses are the same.
\<close>

theorem exceptions_become_500_witness:
  "fst (handleChatRequest example_platform (chat_request (Inl (Error ''Unexpected token''))) example_env) =
     \<lparr>status = 500, headers = [(''content-type'', ''application/json'')],
      body = JSON_stringify (JObject [(''error'', JString ''Failed to process request'')])\<rparr>
   \<and> fst (handleChatRequest
        (example_platform\<lparr>new_Ai := (\<lambda>b. Inr \<lparr>run = (\<lambda>m ms s. Inl (Error ''capacity''))\<rparr>)\<rparr>)
        (chat_request (Inr \<lparr>messages = None, model = None\<rparr>)) example_env) =
     \<lparr>status = 500, headers = [(''content-type'', ''application/json'')],
      body = JSON_stringify (JObject [(''error'', JString ''Failed to process request'')])\<rparr>
   \<and> fst (handleChatRequest
        (example_platform\<lparr>global_fetch := (\<lambda>u m h b. Inl (Error ''network''))\<rparr>)
        (chat_request (Inr \<lparr>messages = None, model = Some ''gemini''\<rparr>)) example_env) =
     \<lparr>status = 500, headers = [(''content-type'', ''application/json'')],
      body = JSON_stringify (JObject [(''error'', JString ''Failed to process request'')])\<rparr>"
proof -
  let ?P2 = "example_platform\<lparr>new_Ai := (\<lambda>b. Inr \<lparr>run = (\<lambda>m ms s. Inl (Error ''capacity''))\<rparr>)\<rparr>"
  let ?P3 = "example_platform\<lparr>global_fetch := (\<lambda>u m h b. Inl (Error ''network''))\<rparr>"
  let ?sys = "[\<lparr>role = System, content = SYSTEM_PROMPT\<rparr>]"
  have one: "fst (handleChatRequest_try example_platform
               (chat_request (Inl (Error ''Unexpected token''))) example_env) =
             Inl (Error ''Unexpected token'')"
    using exceptions_become_500 [of example_platform "chat_request (Inl (Error ''Unexpected token''))"
        example_env "Error ''Unexpected token''" example_ai]
    by (simp add: example_facts)
  have two: "fst (handleChatRequest_try ?P2
               (chat_request (Inr \<lparr>messages = None, model = None\<rparr>)) example_env) =
             Inl (Error ''capacity'')"
    using exceptions_become_500 [of ?P2 "chat_request (Inr \<lparr>messages = None, model = None\<rparr>)"
        example_env "Error ''capacity''" "\<lparr>run = (\<lambda>m ms s. Inl (Error ''capacity''))\<rparr>"
        "\<lparr>messages = None, model = None\<rparr>" "[]" ?sys]
    by (simp add: example_facts)
  have three: "fst (handleChatRequest_try ?P3
               (chat_request (Inr \<lparr>messages = None, model = Some ''gemini''\<rparr>)) example_env) =
             Inl (Error ''network'')"
    using exceptions_become_500 [of ?P3 "chat_request (Inr \<lparr>messages = None, model = Some ''gemini''\<rparr>)"
        example_env "Error ''network''" example_ai
        "\<lparr>messages = None, model = Some ''gemini''\<rparr>" "[]" ?sys]
    by (simp add: example_facts generateStreamingResponseUsingGemini_def)
  from one two three
    exceptions_become_500 [of example_platform "chat_request (Inl (Error ''Unexpected token''))"
        example_env "Error ''Unexpected token''"]
    exceptions_become_500 [of ?P2 "chat_request (Inr \<lparr>messages = None, model = None\<rparr>)"
        example_env "Error ''capacity''"]
    exceptions_become_500 [of ?P3 "chat_request (Inr \<lparr>messages = None, model = Some ''gemini''\<rparr>)"
        example_env "Error ''network''"]
  show ?thesis by simp
qed

section \<open>The secondary generator's request\<close>

text \<open>
  C6. The one upstream call of the secondary generator carries, as the text of its
  request, the contents of the messages in message order with one newline between
  neighbours: the first content, then each further content behind a newline. Roles do
  not enter: two lists with the same contents give the same result and the same call.
  In particular the request with messages user \<open>A\<close>, assistant \<open>B\<close> and model
  \<open>gemini\<close> sends the default system prompt, \<open>A\<close> and \<open>B\<close>, newline-joined.
\<close>

theorem gemini_prompt:
  "snd (generateStreamingResponseUsingGemini P msgs env) =
     [Global_fetch GEMINI_API_ENDPOINT ''POST''
        [(''Content-Type'', ''application/json''), (''X-goog-api-key'', GEMINI_API_KEY env)]
        (JSON_stringify (JObject [(''contents'',
           JArray [JObject [(''parts'',
             JArray [JObject [(''text'', JString
               (case msgs of [] \<Rightarrow> []
                | m # ms \<Rightarrow> content m @ concat (map (\<lambda>m'. newline # content m') ms)))]])]])]))]
   \<and> (map content msgs = map content msgs' \<longrightarrow>
        generateStreamingResponseUsingGemini P msgs env =
        generateStreamingResponseUsingGemini P msgs' env)
   \<and> (new_Ai P (AI env) = Inr ai
        \<and> json request = Inr \<lparr>messages = Some [\<lparr>role = User, content = ''A''\<rparr>,
                                                \<lparr>role = Assistant, content = ''B''\<rparr>],
                               model = Some ''gemini''\<rparr> \<longrightarrow>
        snd (handleChatRequest_try P request env) =
          [Request_json,
           Global_fetch GEMINI_API_ENDPOINT ''POST''
             [(''Content-Type'', ''application/json''), (''X-goog-api-key'', GEMINI_API_KEY env)]
             (JSON_stringify (JObject [(''contents'',
                JArray [JObject [(''parts'',
                  JArray [JObject [(''text'', JString
                    (SYSTEM_PROMPT @ [newline] @ ''A'' @ [newline] @ ''B''))]])]])]))])"
proof -
  have j: "join [newline] (map content msgs) =
       (case msgs of [] \<Rightarrow> []
        | m # ms \<Rightarrow> content m @ concat (map (\<lambda>m'. newline # content m') ms))"
    by (cases msgs) (simp_all add: join_Cons comp_def)
  have a: "snd (generateStreamingResponseUsingGemini P msgs env) =
     [Global_fetch GEMINI_API_ENDPOINT ''POST''
        [(''Content-Type'', ''application/json''), (''X-goog-api-key'', GEMINI_API_KEY env)]
        (JSON_stringify (JObject [(''contents'',
           JArray [JObject [(''parts'',
             JArray [JObject [(''text'', JString
               (case msgs of [] \<Rightarrow> []
                | m # ms \<Rightarrow> content m @ concat (map (\<lambda>m'. newline # content m') ms)))]])]])]))]"
    unfolding generateStreamingResponseUsingGemini_calls j ..
  have c: "snd (handleChatRequest_try P request env) =
          [Request_json,
           Global_fetch GEMINI_API_ENDPOINT ''POST''
             [(''Content-Type'', ''application/json''), (''X-goog-api-key'', GEMINI_API_KEY env)]
             (JSON_stringify (JObject [(''contents'',
                JArray [JObject [(''parts'',
                  JArray [JObject [(''text'', JString
                    (SYSTEM_PROMPT @ [newline] @ ''A'' @ [newline] @ ''B''))]])]])]))]"
    if "new_Ai P (AI env) = Inr ai"
       "json request = Inr \<lparr>messages = Some [\<lparr>role = User, content = ''A''\<rparr>,
                                                \<lparr>role = Assistant, content = ''B''\<rparr>],
                               model = Some ''gemini''\<rparr>"
    by (simp add: handleChatRequest_try_parsed [OF that] Let_def split_beta
        generateStreamingResponseUsingGemini_calls)
  from a c generateStreamingResponseUsingGemini_content [of msgs msgs' P env]
  show ?thesis by blast
qed

theorem gemini_prompt_witness:
  "snd (handleChatRequest_try example_platform
     (chat_request (Inr \<lparr>messages = Some [\<lparr>role = User, content = ''A''\<rparr>,
                                           \<lparr>role = Assistant, content = ''B''\<rparr>],
                         model = Some ''gemini''\<rparr>)) example_env) =
     [Request_json,
      Global_fetch GEMINI_API_ENDPOINT ''POST''
        [(''Content-Type'', ''application/json''), (''X-goog-api-key'', ''key'')]
        (JSON_stringify (JObject [(''contents'',
           JArray [JObject [(''parts'',
             JArray [JObject [(''text'', JString
               (SYSTEM_PROMPT @ [newline] @ ''A'' @ [newline] @ ''B''))]])]])]))]
   \<and> generateStreamingResponseUsingGemini example_platform
        [\<lparr>role = User, content = ''A''\<rparr>, \<lparr>role = Assistant, content = ''B''\<rparr>] example_env =
     generateStreamingResponseUsingGemini example_platform
        [\<lparr>role = System, content = ''A''\<rparr>, \<lparr>role = System, content = ''B''\<rparr>] example_env"
  using gemini_prompt [of example_platform
      "[\<lparr>role = User, content = ''A''\<rparr>, \<lparr>role = Assistant, content = ''B''\<rparr>]" example_env
      "[\<lparr>role = System, content = ''A''\<rparr>, \<lparr>role = System, content = ''B''\<rparr>]" example_ai
      "chat_request (Inr \<lparr>messages = Some [\<lparr>role = User, content = ''A''\<rparr>,
                                           \<lparr>role = Assistant, content = ''B''\<rparr>],
                         model = Some ''gemini''\<rparr>)"]
  by (simp add: example_facts)

text \<open>
  C7. When the Gemini endpoint answers with a response that has no body, so that no reader
  is obtained, the secondary generator throws its error about the missing reader and
  returns no stream: nothing is enqueued, since no stream is built. In the chat handler
  that error reaches the \<^verbatim>\<open>catch\<close>: the response is the 500 JSON error response, the
  error is logged, and the primary generator is not run in its place.
\<close>

theorem gemini_no_readable_body:
  assumes "\<And>h b. \<exists>response. global_fetch P GEMINI_API_ENDPOINT ''POST'' h b = Inr response
                      \<and> getReader response = None"
  shows "fst (generateStreamingResponseUsingGemini P msgs env) =
           Inl (Error ''Failed to get reader from Gemini API response'')
       \<and> (new_Ai P (AI env) = Inr ai \<and> json request = Inr parsed
            \<and> model parsed = Some ''gemini'' \<longrightarrow>
          fst (handleChatRequest P request env) =
            \<lparr>status = 500, headers = [(''content-type'', ''application/json'')],
             body = JSON_stringify (JObject [(''error'', JString ''Failed to process request'')])\<rparr>
          \<and> last (snd (handleChatRequest P request env)) =
              Console_error ''Error processing chat request:''
                (Error ''Failed to get reader from Gemini API response'')
          \<and> \<not> invokes_primary (snd (handleChatRequest P request env)))"
proof -
  have g: "fst (generateStreamingResponseUsingGemini P ms env) =
           Inl (Error ''Failed to get reader from Gemini API response'')" for ms
  proof -
    let ?h = "[(''Content-Type'', ''application/json''), (''X-goog-api-key'', GEMINI_API_KEY env)]"
    let ?b = "JSON_stringify (JObject [(''contents'',
           JArray [JObject [(''parts'',
             JArray [JObject [(''text'', JString (join [newline] (map content ms)))]])]])])"
    from assms [of ?h ?b] obtain response
      where "global_fetch P GEMINI_API_ENDPOINT ''POST'' ?h ?b = Inr response"
        and "getReader response = None"
      by blast
    then show ?thesis
      by (simp add: generateStreamingResponseUsingGemini_def)
  qed
  have h: "fst (handleChatRequest P request env) =
            \<lparr>status = 500, headers = [(''content-type'', ''application/json'')],
             body = JSON_stringify (JObject [(''error'', JString ''Failed to process request'')])\<rparr>
          \<and> last (snd (handleChatRequest P request env)) =
              Console_error ''Error processing chat request:''
                (Error ''Failed to get reader from Gemini API response'')
          \<and> \<not> invokes_primary (snd (handleChatRequest P request env))"
    if "new_Ai P (AI env) = Inr ai" "json request = Inr parsed" "model parsed = Some ''gemini''"
    using that(3)
    by (simp add: handleChatRequest_response handleChatRequest_calls
        handleChatRequest_try_parsed [OF that(1,2)] Let_def split_beta g
        generateStreamingResponseUsingGemini_calls invokes_append invokes_Cons)
  from g h show ?thesis by blast
qed

theorem gemini_no_readable_body_witness:
  "global_fetch (example_platform\<lparr>global_fetch := (\<lambda>u m h b. Inr (FetchResponse None))\<rparr>)
     GEMINI_API_ENDPOINT ''POST'' [] (Text []) = Inr (FetchResponse None)
   \<and> fst (generateStreamingResponseUsingGemini
        (example_platform\<lparr>global_fetch := (\<lambda>u m h b. Inr (FetchResponse None))\<rparr>)
        [\<lparr>role = User, content = ''Hi''\<rparr>] example_env) =
      Inl (Error ''Failed to get reader from Gemini API response'')
   \<and> handleChatRequest
        (example_platform\<lparr>global_fetch := (\<lambda>u m h b. Inr (FetchResponse None))\<rparr>)
        (chat_request (Inr \<lparr>messages = Some [\<lparr>role = System, content = ''S''\<rparr>],
                            model = Some ''gemini''\<rparr>)) example_env =
      (\<lparr>status = 500, headers = [(''content-type'', ''application/json'')],
        body = JSON_stringify (JObject [(''error'', JString ''Failed to process request'')])\<rparr>,
       [Request_json,
        Global_fetch GEMINI_API_ENDPOINT ''POST''
          [(''Content-Type'', ''application/json''), (''X-goog-api-key'', ''key'')]
          (JSON_stringify (JObject [(''contents'',
             JArray [JObject [(''parts'', JArray [JObject [(''text'', JString ''S'')]])]])])),
        Console_error ''Error processing chat request:''
          (Error ''Failed to get reader from Gemini API response'')])"
proof -
  let ?P = "example_platform\<lparr>global_fetch := (\<lambda>u m h b. Inr (FetchResponse None))\<rparr>"
  let ?b = "\<lparr>messages = Some [\<lparr>role = System, content = ''S''\<rparr>], model = Some ''gemini''\<rparr>"
  have nobody: "\<exists>response. global_fetch ?P GEMINI_API_ENDPOINT ''POST'' h b = Inr response
                  \<and> getReader response = None" for h b
    by simp
  have ai: "new_Ai ?P (AI example_env) = Inr example_ai"
    by (simp add: example_facts)
  have calls: "snd (handleChatRequest_try ?P (chat_request (Inr ?b)) example_env) =
       [Request_json,
        Global_fetch GEMINI_API_ENDPOINT ''POST''
          [(''Content-Type'', ''application/json''), (''X-goog-api-key'', ''key'')]
          (JSON_stringify (JObject [(''contents'',
             JArray [JObject [(''parts'', JArray [JObject [(''text'', JString ''S'')]])]])]))]"
    by (simp add: handleChatRequest_try_parsed [OF ai, of _ ?b] example_facts Let_def split_beta
        generateStreamingResponseUsingGemini_calls)
  from gemini_no_readable_body [of ?P "[\<lparr>role = User, content = ''Hi''\<rparr>]" example_env
      example_ai "chat_request (Inr ?b)" ?b, OF nobody]
    gemini_no_readable_body [of ?P "[\<lparr>role = System, content = ''S''\<rparr>]" example_env
      example_ai "chat_request (Inr ?b)" ?b, OF nobody]
    ai calls
  show ?thesis
    by (simp add: prod_eq_iff handleChatRequest_calls handleChatRequest_response
        handleChatRequest_try_parsed [OF ai, of _ ?b] example_facts Let_def split_beta)
qed

section \<open>The streaming response\<close>

text \<open>
  C8. When the handling of a chat request gets as far as a stream (the client is
  constructed, the body is parsed, and the selected generator returns the stream \<open>s\<close>),
  the response has status 200, exactly the three headers \<open>content-type: text/event-stream\<close>,
  \<open>cache-control: no-cache\<close> and \<open>connection: keep-alive\<close>, and \<open>s\<close> as its body.
\<close>

theorem streaming_response_headers:
  assumes "new_Ai P (AI env) = Inr ai" and "json request = Inr parsed"
    and "msgs0 = (case messages parsed of None \<Rightarrow> [] | Some ms \<Rightarrow> ms)"
    and "msgs = (if list_ex (\<lambda>msg. role msg = System) msgs0 then msgs0
                 else \<lparr>role = System, content = SYSTEM_PROMPT\<rparr> # msgs0)"
    and "(if model parsed = Some ''gemini''
          then fst (generateStreamingResponseUsingGemini P msgs env)
          else run ai WORKERS_AI_MODEL msgs True) = Inr s"
  shows "fst (handleChatRequest P request env) =
           \<lparr>status = 200,
            headers = [(''content-type'', ''text/event-stream''),
                       (''cache-control'', ''no-cache''),
                       (''connection'', ''keep-alive'')],
            body = StreamBody s\<rparr>"
  using assms(3-5)
  by (simp add: handleChatRequest_response handleChatRequest_try_parsed [OF assms(1,2)] Let_def
      split_beta generateStreamingResponseUsingWorkersAi_def new_Response_def split: if_splits)

text \<open>Both generators: the stream built around the Gemini reader, and the one \<^verbatim>\<open>ai.run\<close> gives.\<close>

theorem streaming_response_headers_witness:
  "fst (handleChatRequest example_platform
     (chat_request (Inr \<lparr>messages = Some [\<lparr>role = User, content = ''Hi''\<rparr>],
                         model = Some ''gemini''\<rparr>)) example_env) =
     \<lparr>status = 200,
      headers = [(''content-type'', ''text/event-stream''),
                 (''cache-control'', ''no-cache''),
                 (''connection'', ''keep-alive'')],
      body = StreamBody (Constructed (Some
        \<lparr>enqueued = [''data: hi'' @ [newline, newline]], state = Closed\<rparr>))\<rparr>
   \<and> fst (handleChatRequest example_platform
     (chat_request (Inr \<lparr>messages = Some [\<lparr>role = User, content = ''Hi''\<rparr>],
                         model = None\<rparr>)) example_env) =
     \<lparr>status = 200,
      headers = [(''content-type'', ''text/event-stream''),
                 (''cache-control'', ''no-cache''),
                 (''connection'', ''keep-alive'')],
      body = StreamBody (FromUpstream example_reader)\<rparr>"
proof -
  let ?b1 = "\<lparr>messages = Some [\<lparr>role = User, content = ''Hi''\<rparr>], model = Some ''gemini''\<rparr>"
  let ?b2 = "\<lparr>messages = Some [\<lparr>role = User, content = ''Hi''\<rparr>], model = None\<rparr>"
  let ?msgs = "[\<lparr>role = System, content = SYSTEM_PROMPT\<rparr>, \<lparr>role = User, content = ''Hi''\<rparr>]"
  have ai: "new_Ai example_platform (AI example_env) = Inr example_ai"
    by (simp add: example_facts)
  have b: "json (chat_request (Inr b)) = Inr b" for b
    by (simp add: example_facts)
  have m1: "[\<lparr>role = User, content = ''Hi''\<rparr>] = (case messages ?b1 of None \<Rightarrow> [] | Some ms \<Rightarrow> ms)"
    and m2: "[\<lparr>role = User, content = ''Hi''\<rparr>] = (case messages ?b2 of None \<Rightarrow> [] | Some ms \<Rightarrow> ms)"
    by simp_all
  have n: "?msgs = (if list_ex (\<lambda>msg. role msg = System) [\<lparr>role = User, content = ''Hi''\<rparr>]
                    then [\<lparr>role = User, content = ''Hi''\<rparr>]
                    else \<lparr>role = System, content = SYSTEM_PROMPT\<rparr> # [\<lparr>role = User, content = ''Hi''\<rparr>])"
    by simp
  have s1: "(if model ?b1 = Some ''gemini''
             then fst (generateStreamingResponseUsingGemini example_platform ?msgs example_env)
             else run example_ai WORKERS_AI_MODEL ?msgs True) =
           Inr (Constructed (Some \<lparr>enqueued = [''data: hi'' @ [newline, newline]], state = Closed\<rparr>))"
    using generateStreamingResponseUsingGemini_stream [of example_platform example_env ?msgs
        "FetchResponse (Some example_reader)" "map Chunk [[0x68, 0x69]] @- sconst Done"]
      new_ReadableStream_finite [of example_platform "[[0x68, 0x69]]"]
    by (simp add: example_facts example_reader_def) (simp add: example_platform_def)
  have s2: "(if model ?b2 = Some ''gemini''
             then fst (generateStreamingResponseUsingGemini example_platform ?msgs example_env)
             else run example_ai WORKERS_AI_MODEL ?msgs True) = Inr (FromUpstream example_reader)"
    by (simp add: example_facts)
  from streaming_response_headers [OF ai b m1 n s1] streaming_response_headers [OF ai b m2 n s2]
  show ?thesis by simp
qed

text \<open>
  C9. A body that parses, has no \<open>messages\<close> field or an empty \<open>messages\<close> array, and
  whose \<open>model\<close> is not \<open>gemini\<close>: the primary generator's call is the only upstream
  call, and its messages are the one-element list of the default system message; the
  handler's outcome is that call's, wrapped as a response.
\<close>

theorem default_messages_primary:
  assumes "new_Ai P (AI env) = Inr ai" and "json request = Inr parsed"
    and "messages parsed = None \<or> messages parsed = Some []"
    and "model parsed \<noteq> Some ''gemini''"
  shows "snd (handleChatRequest_try P request env) =
           [Request_json,
            Ai_run WORKERS_AI_MODEL [\<lparr>role = System, content = SYSTEM_PROMPT\<rparr>] True]
       \<and> fst (handleChatRequest_try P request env) =
           map_sum id (\<lambda>s. new_Response (StreamBody s) None
                              [(''content-type'', ''text/event-stream''),
                               (''cache-control'', ''no-cache''),
                               (''connection'', ''keep-alive'')])
             (run ai WORKERS_AI_MODEL [\<lparr>role = System, content = SYSTEM_PROMPT\<rparr>] True)"
  using assms(3,4)
  by (auto simp: handleChatRequest_try_parsed [OF assms(1,2)] Let_def
      generateStreamingResponseUsingWorkersAi_def)

text \<open>The body \<^verbatim>\<open>{}\<close>, and the body \<^verbatim>\<open>{messages: [], model: "llama"}\<close>.\<close>

theorem default_messages_primary_witness:
  "snd (handleChatRequest_try example_platform
          (chat_request (Inr \<lparr>messages = None, model = None\<rparr>)) example_env) =
     [Request_json, Ai_run WORKERS_AI_MODEL [\<lparr>role = System, content = SYSTEM_PROMPT\<rparr>] True]
   \<and> snd (handleChatRequest_try example_platform
          (chat_request (Inr \<lparr>messages = Some [], model = Some ''llama''\<rparr>)) example_env) =
     [Request_json, Ai_run WORKERS_AI_MODEL [\<lparr>role = System, content = SYSTEM_PROMPT\<rparr>] True]"
proof -
  have ai: "new_Ai example_platform (AI example_env) = Inr example_ai"
    by (simp add: example_facts)
  have b: "json (chat_request (Inr b)) = Inr b" for b
    by (simp add: example_facts)
  from default_messages_primary [OF ai b, of "\<lparr>messages = None, model = None\<rparr>"]
    default_messages_primary [OF ai b, of "\<lparr>messages = Some [], model = Some ''llama''\<rparr>"]
  show ?thesis by simp
qed

section \<open>Decoding chunk by chunk\<close>

text \<open>
  C10. In the stream the secondary generator returns, every upstream chunk is decoded by
  a decoder constructed for it: the frame enqueued for chunk \<open>i\<close> is \<open>data: \<close>, the text
  a new decoder gives for the bytes of chunk \<open>i\<close>, and two newlines. It does not depend
  on the chunks before it or after it, nor on how the upstream goes on (whenever
  \<^verbatim>\<open>start\<close> ends at all, and it does end when the upstream signals completion). So two
  chunks \<open>a\<close> and \<open>b\<close> give two frames, each decoded on its own from the initial
  decoder state; bytes of one character split between \<open>a\<close> and \<open>b\<close> are not put
  together again.
\<close>

theorem fresh_decoder_per_chunk:
  assumes "global_fetch P GEMINI_API_ENDPOINT ''POST''
             [(''Content-Type'', ''application/json''), (''X-goog-api-key'', GEMINI_API_KEY env)]
             (JSON_stringify (JObject [(''contents'',
                JArray [JObject [(''parts'',
                  JArray [JObject [(''text'', JString (join [newline] (map content msgs)))]])]])]))
           = Inr response"
  shows "(getReader response = Some (map Chunk cs @- sconst Done) \<longrightarrow>
      (\<exists>c. fst (generateStreamingResponseUsingGemini P msgs env) = Inr (Constructed (Some c))
        \<and> length (enqueued c) = length cs
        \<and> (\<forall>i < length cs. enqueued c ! i =
              ''data: '' @ fst (TextDecoder_decode P (new_TextDecoder P) (cs ! i)) @ [newline, newline])))
   \<and> (\<forall>r c. getReader response = Some (map Chunk cs @- r)
          \<and> fst (generateStreamingResponseUsingGemini P msgs env) = Inr (Constructed (Some c)) \<longrightarrow>
         (\<forall>i < length cs. enqueued c ! i =
              ''data: '' @ fst (TextDecoder_decode P (new_TextDecoder P) (cs ! i)) @ [newline, newline]))
   \<and> (getReader response = Some (Chunk a ## Chunk b ## sconst Done) \<longrightarrow>
        fst (generateStreamingResponseUsingGemini P msgs env) =
          Inr (Constructed (Some
            \<lparr>enqueued = [''data: '' @ fst (TextDecoder_decode P (new_TextDecoder P) a) @ [newline, newline],
                          ''data: '' @ fst (TextDecoder_decode P (new_TextDecoder P) b) @ [newline, newline]],
             state = Closed\<rparr>)))"
proof -
  let ?frame = "\<lambda>v. ''data: '' @ fst (TextDecoder_decode P (new_TextDecoder P) v) @ [newline, newline]"
  note gen = generateStreamingResponseUsingGemini_stream [OF assms]
  have fin: "fst (generateStreamingResponseUsingGemini P msgs env) =
               Inr (Constructed (Some \<lparr>enqueued = map ?frame vs, state = Closed\<rparr>))"
    if "getReader response = Some (map Chunk vs @- sconst Done)" for vs
    by (simp add: gen [OF that] new_ReadableStream_finite)
  have one: "\<exists>c. fst (generateStreamingResponseUsingGemini P msgs env) = Inr (Constructed (Some c))
        \<and> length (enqueued c) = length cs
        \<and> (\<forall>i < length cs. enqueued c ! i = ?frame (cs ! i))"
    if "getReader response = Some (map Chunk cs @- sconst Done)"
    by (simp add: fin [OF that])
  have two: "enqueued c ! i = ?frame (cs ! i)"
    if "getReader response = Some (map Chunk cs @- r)"
      "fst (generateStreamingResponseUsingGemini P msgs env) = Inr (Constructed (Some c))"
      "i < length cs" for r c i
  proof -
    from that(2) have "start P r \<lparr>enqueued = map ?frame cs, state = Readable\<rparr> = Some c"
      by (simp add: gen [OF that(1)] new_ReadableStream_chunks)
    from start_prefix [OF this] have "prefix (map ?frame cs) (enqueued c)"
      by simp
    then obtain zs where "enqueued c = map ?frame cs @ zs"
      by (auto simp: prefix_def)
    with that(3) show ?thesis
      by (simp add: nth_append)
  qed
  have three: "fst (generateStreamingResponseUsingGemini P msgs env) =
        Inr (Constructed (Some \<lparr>enqueued = [?frame a, ?frame b], state = Closed\<rparr>))"
    if "getReader response = Some (Chunk a ## Chunk b ## sconst Done)"
    using fin [of "[a, b]"] that by simp
  from one two three show ?thesis by blast
qed

text \<open>
  The two bytes of one character arrive in two chunks of the Gemini response. The
  example decoder marks the output of a decoder that was used before; no frame carries
  the mark. The same second chunk gives the same frame after a different first chunk,
  and when the upstream fails after it.
\<close>

theorem fresh_decoder_per_chunk_witness:
  "fst (generateStreamingResponseUsingGemini
     (example_platform\<lparr>global_fetch := (\<lambda>u m h b.
        Inr (FetchResponse (Some (Chunk [0xC3] ## Chunk [0xA9] ## sconst Done))))\<rparr>)
     [\<lparr>role = User, content = ''Hi''\<rparr>] example_env) =
   Inr (Constructed (Some
     \<lparr>enqueued = [''data: ?'' @ [newline, newline], ''data: ?'' @ [newline, newline]],
      state = Closed\<rparr>))
   \<and> (\<exists>c. fst (generateStreamingResponseUsingGemini
     (example_platform\<lparr>global_fetch := (\<lambda>u m h b.
        Inr (FetchResponse (Some (map Chunk [[0x68], [0xA9]] @- sconst (Rejected (Error ''reset''))))))\<rparr>)
     [\<lparr>role = User, content = ''Hi''\<rparr>] example_env) = Inr (Constructed (Some c))
        \<and> enqueued c ! 1 = ''data: ?'' @ [newline, newline]
        \<and> state c = Errored (Error ''reset''))"
proof -
  let ?r1 = "Chunk [0xC3] ## Chunk [0xA9] ## sconst Done"
  let ?r2 = "map Chunk [[0x68], [0xA9]] @- sconst (Rejected (Error ''reset''))"
  let ?P1 = "example_platform\<lparr>global_fetch := (\<lambda>u m h b. Inr (FetchResponse (Some ?r1)))\<rparr>"
  let ?P2 = "example_platform\<lparr>global_fetch := (\<lambda>u m h b. Inr (FetchResponse (Some ?r2)))\<rparr>"
  let ?msgs = "[\<lparr>role = User, content = ''Hi''\<rparr>]"
  have call1: "global_fetch ?P1 u m h b = Inr (FetchResponse (Some ?r1))" for u m h b
    by simp
  have call2: "global_fetch ?P2 u m h b = Inr (FetchResponse (Some ?r2))" for u m h b
    by simp
  have first: "fst (generateStreamingResponseUsingGemini ?P1 ?msgs example_env) =
      Inr (Constructed (Some
        \<lparr>enqueued = [''data: ?'' @ [newline, newline], ''data: ?'' @ [newline, newline]],
         state = Closed\<rparr>))"
    using fresh_decoder_per_chunk [OF call1, where msgs = ?msgs and env = example_env
        and a = "[0xC3]" and b = "[0xA9]"]
    by (simp add: example_platform_def)
  have gen2: "fst (generateStreamingResponseUsingGemini ?P2 ?msgs example_env) =
      Inr (Constructed (Some
        \<lparr>enqueued = map (\<lambda>v. ''data: '' @ fst (TextDecoder_decode ?P2 (new_TextDecoder ?P2) v)
                           @ [newline, newline]) [[0x68], [0xA9]],
         state = Errored (Error ''reset'')\<rparr>))"
    using generateStreamingResponseUsingGemini_stream [OF call2, where msgs = ?msgs
        and env = example_env and reader = ?r2]
    by (simp only: FetchResponse.sel new_ReadableStream_rejected simp_thms)
  have second: "\<exists>c. fst (generateStreamingResponseUsingGemini ?P2 ?msgs example_env) =
        Inr (Constructed (Some c))
        \<and> enqueued c ! 1 = ''data: ?'' @ [newline, newline]
        \<and> state c = Errored (Error ''reset'')"
    using fresh_decoder_per_chunk [OF call2, where msgs = ?msgs and env = example_env
        and cs = "[[0x68], [0xA9]]"] gen2
    by (auto simp: example_platform_def)
  from first second show ?thesis
    by (simp only: shift.simps list.map)
qed

end
